theory Spec2Isabelle
  imports Complex_Main "HOL-Library.Char_ord" "HOL-Library.List_Lexorder"
begin

section \<open>Chunker (processor/chunker.py)\<close>

text \<open>
  The thresholds are the module constants of the source. The tokenizer
  (\<^verbatim>\<open>token_len\<close>, tiktoken's cl100k\_base encoding) is an external library: it is a
  parameter of the model, any function from strings to token counts.
\<close>

definition MAX_TOKENS :: nat where
  "MAX_TOKENS = 450"

definition MIN_TOKENS :: nat where
  "MIN_TOKENS = 60"

type_synonym tokenizer = "string \<Rightarrow> nat"

text \<open>
  Python's \<^verbatim>\<open>str.strip()\<close> removes leading and trailing whitespace. On the
  one-byte characters of \<^typ>\<open>string\<close> whitespace is: tab, line feed, vertical tab, form
  feed, carriage return, the separators 28 to 31, space, NEL (133) and NBSP (160).
\<close>

definition is_space :: "char \<Rightarrow> bool" where
  "is_space c = (let n = (of_char c :: nat) in
     (9 \<le> n \<and> n \<le> 13) \<or> (28 \<le> n \<and> n \<le> 32) \<or> n = 133 \<or> n = 160)"

definition strip :: "string \<Rightarrow> string" where
  "strip s = rev (dropWhile is_space (rev (dropWhile is_space s)))"

text \<open>\<^verbatim>\<open>"\n".join(cur)\<close>\<close>

fun join_nl :: "string list \<Rightarrow> string" where
  "join_nl [] = []"
| "join_nl [l] = l"
| "join_nl (l # ls) = l @ CHR 0x0A # join_nl ls"

text \<open>\<^verbatim>\<open>ln.startswith("#")\<close>\<close>

definition is_heading :: "string \<Rightarrow> bool" where
  "is_heading line = (case line of [] \<Rightarrow> False | c # _ \<Rightarrow> c = CHR ''#'')"

text \<open>
  The closing of a buffer at a heading and at the end of the input (lines 36-40 and
  46-49 of the source): the stripped text is appended only when it has more than
  \<^const>\<open>MIN_TOKENS\<close> tokens.
\<close>

definition close_min :: "tokenizer \<Rightarrow> string list \<Rightarrow> string list \<Rightarrow> string list" where
  "close_min token_len chunks cur =
     (let txt = strip (join_nl cur)
      in if token_len txt > MIN_TOKENS then chunks @ [txt] else chunks)"

text \<open>
  The body of the \<^verbatim>\<open>for ln in lines\<close> loop, on the pair of the chunks emitted so
  far and the current buffer.
\<close>

definition chunk_step :: "tokenizer \<Rightarrow> string list \<times> string list \<Rightarrow> string
    \<Rightarrow> string list \<times> string list" where
  "chunk_step token_len st line =
     (let (chunks, cur) = st;
          (chunks1, cur1) =
            (if is_heading line \<and> cur \<noteq> [] then (close_min token_len chunks cur, [])
             else (chunks, cur));
          cur2 = cur1 @ [line]
      in if token_len (join_nl cur2) > MAX_TOKENS
         then (chunks1 @ [strip (join_nl cur2)], [])
         else (chunks1, cur2))"

fun chunk_loop :: "tokenizer \<Rightarrow> string list \<times> string list \<Rightarrow> string list
    \<Rightarrow> string list \<times> string list" where
  "chunk_loop token_len st [] = st"
| "chunk_loop token_len st (line # lns) = chunk_loop token_len (chunk_step token_len st line) lns"

definition chunk_heading_recursive :: "tokenizer \<Rightarrow> string list \<Rightarrow> string list" where
  "chunk_heading_recursive token_len lines =
     (let (chunks, cur) = chunk_loop token_len ([], []) lines
      in if cur \<noteq> [] then close_min token_len chunks cur else chunks)"








text \<open>A stand-in tokenizer for concrete runs: one token per character.\<close>

definition char_tokens :: tokenizer where
  "char_tokens s = length s"


section \<open>Index builder (indexer/build\_index.py)\<close>

subsection \<open>Values\<close>

text \<open>What \<^verbatim>\<open>json.load\<close> returns: a JSON value (\<^verbatim>\<open>null\<close> is Python's \<^verbatim>\<open>None\<close>).\<close>

datatype json =
    JNull
  | JBool bool
  | JNum int
  | JStr string
  | JArr "json list"
  | JObj "(string \<times> json) list"

text \<open>\<^verbatim>\<open>d.get(key, default)\<close> on a dictionary.\<close>

definition dict_get :: "(string \<times> json) list \<Rightarrow> string \<Rightarrow> json \<Rightarrow> json" where
  "dict_get d k dflt = (case map_of d k of None \<Rightarrow> dflt | Some v \<Rightarrow> v)"

text \<open>
  An embedding is a one-dimensional \<^verbatim>\<open>float32\<close> array; the claims are about its
  length only.
\<close>

type_synonym vec = "real list"

definition np_zeros :: "nat \<Rightarrow> vec" where
  "np_zeros n = replicate n 0"

definition np_zeros_like :: "vec \<Rightarrow> vec" where
  "np_zeros_like v = replicate (length v) 0"

datatype py_exc =
    HTTPException nat string
  | PyError string

text \<open>
  \<^verbatim>\<open>np.stack\<close> raises \<^verbatim>\<open>ValueError\<close> on an empty list and on arrays of
  different shapes; otherwise the rows are the arrays, in order.
\<close>

definition np_stack :: "vec list \<Rightarrow> py_exc + vec list" where
  "np_stack vs =
     (case vs of
        [] \<Rightarrow> Inl (PyError ''need at least one array to stack'')
      | v # _ \<Rightarrow>
          if list_all (\<lambda>u. length u = length v) vs then Inr vs
          else Inl (PyError ''all input arrays must have the same shape''))"

text \<open>
  \<^verbatim>\<open>faiss.IndexFlatL2(dim)\<close> followed by \<^verbatim>\<open>index.add(embeddings_array)\<close>: the
  dimension and the stored rows; \<^verbatim>\<open>index.ntotal\<close> is the number of rows.
\<close>

record faiss_index =
  dim :: nat
  rows :: "vec list"

definition ntotal :: "faiss_index \<Rightarrow> nat" where
  "ntotal ix = length (rows ix)"

record meta =
  m_url :: json
  m_title :: json
  m_position :: json
  m_checksum :: json
  m_filename :: string
  m_indexed_at :: string

subsection \<open>Files and collaborators\<close>

text \<open>
  A file of the chunk directory: its name, its bytes, and what
  \<^verbatim>\<open>json.load\<close> makes of it (\<open>BadJson\<close> when opening or parsing raises).
\<close>

datatype json_file = BadJson | Json json

record chunk_file =
  fname :: string
  raw :: string
  loaded :: json_file

text \<open>
  The files the builder works on, all relative to its working directory:
  \<^verbatim>\<open>INPUT_DIR\<close> (\<open>None\<close> when the directory does not exist, else its entries in
  the order of \<^verbatim>\<open>os.listdir\<close>, taken to be readable regular files),
  \<^verbatim>\<open>FAISS_FILE\<close>, \<^verbatim>\<open>META_FILE\<close> and \<^verbatim>\<open>INDEX_INFO_FILE\<close> (\<open>None\<close> when
  the file does not exist). An index file and a metadata file that exist hold what
  \<^verbatim>\<open>faiss.write_index\<close> and \<^verbatim>\<open>json.dump\<close> wrote there.
\<close>

record builder_fs =
  input_dir :: "chunk_file list option"
  faiss_file :: "faiss_index option"
  meta_file :: "meta list option"
  index_info_file :: "json_file option"

text \<open>
  The collaborators: the embedding provider (its answer to the \<open>n\<close>-th call of the run;
  \<open>None\<close> when \<^verbatim>\<open>genai.embed_content\<close> raises), \<^verbatim>\<open>hashlib.md5(...).hexdigest()\<close>
  and \<^verbatim>\<open>datetime.now().isoformat()\<close> (the \<open>n\<close>-th reading of the clock).
\<close>

record builder_env =
  embed_content :: "nat \<Rightarrow> json \<Rightarrow> vec option"
  md5_hexdigest :: "string \<Rightarrow> string"
  now_isoformat :: "nat \<Rightarrow> string"

definition BATCH_SIZE :: nat where
  "BATCH_SIZE = 16"

subsection \<open>Functions\<close>

text \<open>
  \<^verbatim>\<open>get_gemini_embeddings\<close>: the loop over the texts of one batch. The state is the
  list \<^verbatim>\<open>embeddings\<close> built so far, which starts empty in every batch, and the number
  of provider calls issued so far in the run.
\<close>

fun gemini_loop :: "builder_env \<Rightarrow> vec list \<times> nat \<Rightarrow> json list \<Rightarrow> vec list \<times> nat" where
  "gemini_loop env (embeddings, n) [] = (embeddings, n)"
| "gemini_loop env (embeddings, n) (text # texts) =
     (case embed_content env n text of
        Some v \<Rightarrow> gemini_loop env (embeddings @ [v], Suc n) texts
      | None \<Rightarrow>
          if embeddings \<noteq> []
          then gemini_loop env (embeddings @ [np_zeros_like (hd embeddings)], Suc n) texts
          else gemini_loop env (embeddings @ [np_zeros 768], Suc n) texts)"

definition get_gemini_embeddings :: "builder_env \<Rightarrow> nat \<Rightarrow> json list \<Rightarrow> vec list \<times> nat" where
  "get_gemini_embeddings env n texts = gemini_loop env ([], n) texts"

text \<open>\<^verbatim>\<open>f.endswith(".json")\<close>\<close>

definition endswith :: "string \<Rightarrow> string \<Rightarrow> bool" where
  "endswith s suffix =
     (length suffix \<le> length s \<and> drop (length s - length suffix) s = suffix)"

text \<open>
  \<^verbatim>\<open>load_chunks\<close>: a file whose load raises, or whose content is not a dictionary
  (\<^verbatim>\<open>data.get\<close> raises before anything is appended), is skipped.
\<close>

fun load_loop :: "builder_env \<Rightarrow> json list \<times> meta list \<Rightarrow> chunk_file list
    \<Rightarrow> json list \<times> meta list" where
  "load_loop env (texts, metas) [] = (texts, metas)"
| "load_loop env (texts, metas) (f # fs) =
     (case loaded f of
        Json (JObj data) \<Rightarrow>
          load_loop env
            (texts @ [dict_get data ''text'' (JStr [])],
             metas @ [\<lparr> m_url = dict_get data ''url'' (JStr []),
                        m_title = dict_get data ''title'' (JStr []),
                        m_position = dict_get data ''position'' (JNum 0),
                        m_checksum = dict_get data ''checksum'' (JStr []),
                        m_filename = fname f,
                        m_indexed_at = now_isoformat env (length metas) \<rparr>]) fs
      | _ \<Rightarrow> load_loop env (texts, metas) fs)"

definition load_chunks :: "builder_env \<Rightarrow> chunk_file list option \<Rightarrow> json list \<times> meta list" where
  "load_chunks env d =
     (case d of
        None \<Rightarrow> ([], [])
      | Some entries \<Rightarrow>
          load_loop env ([], [])
            (sort_key fname (filter (\<lambda>f. endswith (fname f) ''.json'') entries)))"

text \<open>
  \<^verbatim>\<open>calculate_directory_hash\<close>: successive \<^verbatim>\<open>update\<close> calls hash the
  concatenation of the bytes.
\<close>

definition calculate_directory_hash :: "builder_env \<Rightarrow> chunk_file list option \<Rightarrow> string option" where
  "calculate_directory_hash env d =
     (case d of
        None \<Rightarrow> None
      | Some entries \<Rightarrow>
          Some (md5_hexdigest env
            (concat (map raw
              (filter (\<lambda>f. endswith (fname f) ''.json'') (sort_key fname entries))))))"

text \<open>
  \<^verbatim>\<open>last_hash != current_hash\<close>: a value read from JSON against a hex digest or
  \<^verbatim>\<open>None\<close>.
\<close>

definition hash_differs :: "json \<Rightarrow> string option \<Rightarrow> bool" where
  "hash_differs last_hash current_hash =
     (case (last_hash, current_hash) of
        (JNull, None) \<Rightarrow> False
      | (JStr s, Some t) \<Rightarrow> s \<noteq> t
      | _ \<Rightarrow> True)"

definition should_reindex :: "builder_env \<Rightarrow> builder_fs \<Rightarrow> bool" where
  "should_reindex env fs =
     (if faiss_file fs = None \<or> meta_file fs = None then True
      else case index_info_file fs of
        None \<Rightarrow> True
      | Some BadJson \<Rightarrow> True
      | Some (Json (JObj index_info)) \<Rightarrow>
          let last_hash = dict_get index_info ''content_hash'' JNull;
              current_hash = calculate_directory_hash env (input_dir fs)
          in if hash_differs last_hash current_hash then True else False
      | Some (Json _) \<Rightarrow> True)"

definition save_index_info :: "builder_env \<Rightarrow> nat \<Rightarrow> string option \<Rightarrow> nat \<Rightarrow> builder_fs \<Rightarrow> builder_fs" where
  "save_index_info env clock content_hash num_chunks fs =
     fs\<lparr> index_info_file := Some (Json (JObj
           [(''content_hash'', case content_hash of None \<Rightarrow> JNull | Some h \<Rightarrow> JStr h),
            (''num_chunks'', JNum (int num_chunks)),
            (''indexed_at'', JStr (now_isoformat env clock)),
            (''model'', JStr ''text-embedding-004'')])) \<rparr>"

text \<open>
  The batch loop of \<^verbatim>\<open>build_faiss_index\<close>:
  \<^verbatim>\<open>for i in range(0, len(texts), BATCH_SIZE)\<close>.
\<close>

function embed_batches :: "builder_env \<Rightarrow> json list \<Rightarrow> nat \<Rightarrow> vec list \<times> nat \<Rightarrow> vec list \<times> nat" where
  "embed_batches env texts i (all_embeddings, n) =
     (if i < length texts then
        (let batch_texts = take BATCH_SIZE (drop i texts);
             (batch_embs, n') = get_gemini_embeddings env n batch_texts
         in embed_batches env texts (i + BATCH_SIZE) (all_embeddings @ batch_embs, n'))
      else (all_embeddings, n))"
  by pat_completeness auto
termination
  by (relation "measure (\<lambda>(env, texts, i, st). length texts - i)")
     (auto simp: BATCH_SIZE_def)

text \<open>
  \<^verbatim>\<open>build_faiss_index\<close> returns the files as it leaves them, the number of
  embedding-provider calls it issued, and its result: the exception that ended it, or
  the pair of the index (\<open>None\<close> for Python's \<^verbatim>\<open>None\<close>) and the metadata list.
\<close>

definition build_faiss_index :: "builder_env \<Rightarrow> builder_fs \<Rightarrow> bool
    \<Rightarrow> builder_fs \<times> nat \<times> (py_exc + faiss_index option \<times> meta list)" where
  "build_faiss_index env fs force_reindex =
     (if \<not> force_reindex \<and> \<not> should_reindex env fs then
        (case (faiss_file fs, meta_file fs) of
           (Some index, Some metas) \<Rightarrow> (fs, 0, Inr (Some index, metas))
         | _ \<Rightarrow> (fs, 0, Inl (PyError ''No such file or directory'')))
      else
        (let (texts, metas) = load_chunks env (input_dir fs)
         in if length texts = 0 then (fs, 0, Inr (None, []))
            else
              (let (all_embeddings, n) = embed_batches env texts 0 ([], 0)
               in case np_stack all_embeddings of
                    Inl e \<Rightarrow> (fs, n, Inl e)
                  | Inr embeddings_array \<Rightarrow>
                      (let index = \<lparr> dim = length (hd embeddings_array),
                                     rows = embeddings_array \<rparr>;
                           fs1 = fs\<lparr> faiss_file := Some index \<rparr>;
                           fs2 = fs1\<lparr> meta_file := Some metas \<rparr>;
                           content_hash = calculate_directory_hash env (input_dir fs2);
                           fs3 = save_index_info env (length metas) content_hash
                                   (length texts) fs2
                       in (fs3, n, Inr (Some index, metas))))))"

section \<open>Query service (rag\_service/app.py)\<close>

subsection \<open>Index file paths\<close>

text \<open>
  \<^verbatim>\<open>FAISS_FILE\<close> of the builder is a path relative to the working directory;
  \<^verbatim>\<open>FAISS_FILE\<close> of the service is \<^verbatim>\<open>os.path.join(PARENT_DIR, "faiss_index.index")\<close>.
  \<^verbatim>\<open>os.path.join\<close> of two components, with separator \<open>/\<close>: an absolute second
  component replaces the first; otherwise the two are concatenated, with a separator
  unless the first is empty or ends with one. A relative path names the file at the
  join of the working directory and the path.
\<close>

definition os_path_join :: "string \<Rightarrow> string \<Rightarrow> string" where
  "os_path_join a b =
     (if b \<noteq> [] \<and> hd b = CHR ''/'' then b
      else if a = [] \<or> last a = CHR ''/'' then a @ b
      else a @ CHR ''/'' # b)"

definition builder_FAISS_FILE :: string where
  "builder_FAISS_FILE = ''aiss_index.index''"

definition service_FAISS_FILE :: "string \<Rightarrow> string" where
  "service_FAISS_FILE PARENT_DIR = os_path_join PARENT_DIR ''faiss_index.index''"

definition service_META_FILE :: "string \<Rightarrow> string" where
  "service_META_FILE PARENT_DIR = os_path_join PARENT_DIR ''meta.json''"

text \<open>
  A store of files by path: \<^verbatim>\<open>faiss.write_index(index, path)\<close> writes one entry,
  \<^verbatim>\<open>faiss.read_index(path)\<close> reads one.
\<close>

type_synonym file_store = "string \<rightharpoonup> faiss_index"

definition write_index :: "faiss_index \<Rightarrow> string \<Rightarrow> file_store \<Rightarrow> file_store" where
  "write_index index path store = store(path \<mapsto> index)"

definition read_index :: "string \<Rightarrow> file_store \<Rightarrow> faiss_index option" where
  "read_index path store = store path"

subsection \<open>Retrieval\<close>

text \<open>
  The world the service runs in: which of its two files exist, what reading them gives,
  and the collaborators. An \<open>Inl\<close> is the exception the call raises.
  \<open>w_search\<close> is \<^verbatim>\<open>index.search\<close> on the loaded index: the pairs of
  \<^verbatim>\<open>zip(D[0], I[0])\<close>. \<open>w_str_http\<close> is \<^verbatim>\<open>str(e)\<close> of an
  \<^verbatim>\<open>HTTPException\<close> (a property of the web framework); \<open>w_format\<close> is the text an
  f-string gives a JSON value. \<open>w_generate\<close> is the streaming chat completion on a
  prompt: the call raises, or it returns a stream of chunks that ends normally
  (\<open>None\<close>) or by raising. A chunk is the list of the \<^verbatim>\<open>delta.content\<close> of its
  \<^verbatim>\<open>choices\<close>.
\<close>

type_synonym gen_chunk = "string option list"

record world =
  w_parent_dir :: string
  w_faiss_exists :: bool
  w_meta_exists :: bool
  w_read_index :: "py_exc option"
  w_load_metas :: "py_exc + json"
  w_embed_query :: "string \<Rightarrow> py_exc + vec"
  w_search :: "vec \<Rightarrow> int option \<Rightarrow> py_exc + (real \<times> int) list"
  w_str_http :: "nat \<Rightarrow> string \<Rightarrow> string"
  w_format :: "json \<Rightarrow> string"
  w_generate :: "string \<Rightarrow> py_exc + (gen_chunk list \<times> py_exc option)"

text \<open>\<^verbatim>\<open>str(e)\<close>\<close>

definition py_str :: "world \<Rightarrow> py_exc \<Rightarrow> string" where
  "py_str w e = (case e of HTTPException code detail \<Rightarrow> w_str_http w code detail
                          | PyError msg \<Rightarrow> msg)"

record doc =
  d_distance :: real
  d_text :: json
  d_url :: json
  d_title :: json
  d_position :: json

text \<open>\<^verbatim>\<open>len(metas)\<close>; a number, a boolean and \<^verbatim>\<open>None\<close> have no length.\<close>

definition py_len :: "json \<Rightarrow> py_exc + nat" where
  "py_len v =
     (case v of
        JArr xs \<Rightarrow> Inr (length xs)
      | JObj kvs \<Rightarrow> Inr (length kvs)
      | JStr s \<Rightarrow> Inr (length s)
      | _ \<Rightarrow> Inl (PyError ''object has no len()''))"

text \<open>
  \<^verbatim>\<open>metas[idx]\<close> followed by the \<^verbatim>\<open>meta.get\<close> calls, for an index below
  \<^verbatim>\<open>len(metas)\<close>: a negative index counts from the end of a list; a dictionary read
  from JSON has no integer key; a character of a string has no \<^verbatim>\<open>get\<close>.
\<close>

definition metas_item :: "json \<Rightarrow> int \<Rightarrow> py_exc + (string \<times> json) list" where
  "metas_item metas idx =
     (case metas of
        JArr xs \<Rightarrow>
          (let n = int (length xs); j = (if idx < 0 then n + idx else idx)
           in if 0 \<le> j \<and> j < n then
                (case xs ! nat j of
                   JObj meta \<Rightarrow> Inr meta
                 | _ \<Rightarrow> Inl (PyError ''object has no attribute get''))
              else Inl (PyError ''list index out of range''))
      | JObj kvs \<Rightarrow> Inl (PyError ''KeyError'')
      | _ \<Rightarrow> Inl (PyError ''object has no attribute get''))"

text \<open>\<^verbatim>\<open>v[:n]\<close>: strings and lists can be sliced.\<close>

definition py_slice :: "json \<Rightarrow> nat \<Rightarrow> py_exc + json" where
  "py_slice v n =
     (case v of
        JStr s \<Rightarrow> Inr (JStr (take n s))
      | JArr xs \<Rightarrow> Inr (JArr (take n xs))
      | _ \<Rightarrow> Inl (PyError ''object is not subscriptable''))"

text \<open>The result loop of \<^verbatim>\<open>retrieve_top_k\<close> (lines 85-97).\<close>

fun results_loop :: "json \<Rightarrow> doc list \<Rightarrow> (real \<times> int) list \<Rightarrow> py_exc + doc list" where
  "results_loop metas results [] = Inr results"
| "results_loop metas results ((distance, idx) # rest) =
     (if idx = -1 then results_loop metas results rest
      else
        (case py_len metas of
           Inl e \<Rightarrow> Inl e
         | Inr n \<Rightarrow>
             (if idx \<ge> int n then results_loop metas results rest
              else
                (case metas_item metas idx of
                   Inl e \<Rightarrow> Inl e
                 | Inr meta \<Rightarrow>
                     (case py_slice (dict_get meta ''text'' (JStr [])) 1500 of
                        Inl e \<Rightarrow> Inl e
                      | Inr text \<Rightarrow>
                          results_loop metas
                            (results @ [\<lparr> d_distance = distance,
                                          d_text = text,
                                          d_url = dict_get meta ''url'' (JStr []),
                                          d_title = dict_get meta ''title'' (JStr ''Unknown''),
                                          d_position = dict_get meta ''position'' (JNum 0) \<rparr>])
                            rest)))))"

text \<open>
  \<^verbatim>\<open>embed_query\<close>: any exception of the provider becomes
  \<^verbatim>\<open>HTTPException(status_code=500, detail=str(e))\<close>.
\<close>

definition embed_query :: "world \<Rightarrow> string \<Rightarrow> py_exc + vec" where
  "embed_query w query =
     (case w_embed_query w query of
        Inl e \<Rightarrow> Inl (HTTPException 500 (py_str w e))
      | Inr v \<Rightarrow> Inr v)"

text \<open>The body of the \<^verbatim>\<open>try\<close> block of \<^verbatim>\<open>retrieve_top_k\<close> (lines 70-97).\<close>

definition retrieve_body :: "world \<Rightarrow> string \<Rightarrow> int option \<Rightarrow> py_exc + doc list" where
  "retrieve_body w query top_k =
     (if \<not> w_faiss_exists w then
        Inl (HTTPException 404
              (''Index not found at: '' @ service_FAISS_FILE (w_parent_dir w)))
      else if \<not> w_meta_exists w then
        Inl (HTTPException 404
              (''Metadata not found at: '' @ service_META_FILE (w_parent_dir w)))
      else case w_read_index w of
        Some e \<Rightarrow> Inl e
      | None \<Rightarrow>
          (case w_load_metas w of
             Inl e \<Rightarrow> Inl e
           | Inr metas \<Rightarrow>
               (case embed_query w query of
                  Inl e \<Rightarrow> Inl e
                | Inr query_emb \<Rightarrow>
                    (case w_search w query_emb top_k of
                       Inl e \<Rightarrow> Inl e
                     | Inr pairs \<Rightarrow> results_loop metas [] pairs))))"

text \<open>
  \<^verbatim>\<open>retrieve_top_k\<close>: the \<^verbatim>\<open>except Exception\<close> clause (lines 98-100) catches
  every exception of the body, the \<^verbatim>\<open>HTTPException\<close>s raised there included.
\<close>

definition retrieve_top_k :: "world \<Rightarrow> string \<Rightarrow> int option \<Rightarrow> py_exc + doc list" where
  "retrieve_top_k w query top_k =
     (case retrieve_body w query top_k of
        Inl e \<Rightarrow> Inl (HTTPException 500 (py_str w e))
      | Inr results \<Rightarrow> Inr results)"

subsection \<open>The event stream\<close>

record source =
  s_title :: json
  s_url :: json
  s_snippet :: string
  s_distance :: real
  s_position :: json

text \<open>The events of the stream, by their \<^verbatim>\<open>type\<close> tag.\<close>

datatype event =
    Sources "source list"
  | Token string
  | Done
  | Error string

text \<open>
  \<^verbatim>\<open>d["text"][:250] + "..."\<close>: only a string can be extended by a string.
\<close>

definition snippet :: "json \<Rightarrow> py_exc + string" where
  "snippet text =
     (case text of
        JStr s \<Rightarrow> Inr (take 250 s @ ''...'')
      | _ \<Rightarrow> Inl (PyError ''can only concatenate list (not str) to list''))"

fun sources_of :: "doc list \<Rightarrow> py_exc + source list" where
  "sources_of [] = Inr []"
| "sources_of (d # ds) =
     (case snippet (d_text d) of
        Inl e \<Rightarrow> Inl e
      | Inr sn \<Rightarrow>
          (case sources_of ds of
             Inl e \<Rightarrow> Inl e
           | Inr ss \<Rightarrow>
               Inr (\<lparr> s_title = d_title d, s_url = d_url d, s_snippet = sn,
                      s_distance = d_distance d, s_position = d_position d \<rparr> # ss)))"

text \<open>Decimal digits of a number, for \<^verbatim>\<open>{i+1}\<close> in the f-string.\<close>

fun show_nat_fuel :: "nat \<Rightarrow> nat \<Rightarrow> string" where
  "show_nat_fuel 0 n = []"
| "show_nat_fuel (Suc k) n =
     (if n < 10 then [char_of (48 + n)]
      else show_nat_fuel k (n div 10) @ [char_of (48 + n mod 10)])"

definition show_nat :: "nat \<Rightarrow> string" where
  "show_nat n = show_nat_fuel (Suc n) n"

text \<open>\<^verbatim>\<open>sep.join(parts)\<close>\<close>

fun join_with :: "string \<Rightarrow> string list \<Rightarrow> string" where
  "join_with sep [] = []"
| "join_with sep [p] = p"
| "join_with sep (p # ps) = p @ sep @ join_with sep ps"

definition NL :: char where
  "NL = CHR 0x0A"

definition build_prompt :: "world \<Rightarrow> string \<Rightarrow> doc list \<Rightarrow> string" where
  "build_prompt w query docs =
     (let context = join_with ([NL, NL] @ ''---'' @ [NL, NL])
            (map (\<lambda>(i, d). ''Source '' @ show_nat (i + 1) @ '' - '' @ w_format w (d_title d)
                     @ '':'' @ [NL] @ w_format w (d_text d))
                 (enumerate 0 docs))
      in ''You are a helpful assistant. Use this context to answer:'' @ [NL, NL] @ context
         @ [NL, NL] @ ''Question: '' @ query @ [NL, NL] @ ''Answer:'')"

text \<open>
  The loop over the response stream (lines 172-176): a chunk with a choice whose
  content is not empty is forwarded as a token event.
\<close>

fun token_events :: "gen_chunk list \<Rightarrow> event list" where
  "token_events [] = []"
| "token_events (chunk # chunks) =
     (case chunk of
        Some content # _ \<Rightarrow>
          if content \<noteq> [] then Token content # token_events chunks
          else token_events chunks
      | _ \<Rightarrow> token_events chunks)"

text \<open>
  The two \<^verbatim>\<open>except\<close> clauses of \<^verbatim>\<open>event_generator\<close> (lines 181-186): the
  events yielded so far stay, one error event follows.
\<close>

definition error_event :: "world \<Rightarrow> py_exc \<Rightarrow> event" where
  "error_event w e =
     (case e of
        HTTPException code detail \<Rightarrow> Error detail
      | PyError msg \<Rightarrow> Error (py_str w e))"

text \<open>
  \<^verbatim>\<open>event_generator\<close>: the events it yields, in order, and the number of times it
  called the generation provider.
\<close>

definition event_generator :: "world \<Rightarrow> string \<Rightarrow> int option \<Rightarrow> event list \<times> nat" where
  "event_generator w query top_k =
     (case retrieve_top_k w query top_k of
        Inl e \<Rightarrow> ([error_event w e], 0)
      | Inr docs \<Rightarrow>
          (if docs = [] then ([Error ''No docs found''], 0)
           else
             (case sources_of docs of
                Inl e \<Rightarrow> ([error_event w e], 0)
              | Inr sources \<Rightarrow>
                  (let prompt = build_prompt w query docs
                   in (case w_generate w prompt of
                         Inl e \<Rightarrow> ([Sources sources, error_event w e], 1)
                       | Inr (chunks, None) \<Rightarrow>
                           (Sources sources # token_events chunks @ [Done], 1)
                       | Inr (chunks, Some e) \<Rightarrow>
                           (Sources sources # token_events chunks @ [error_event w e], 1))))))"

record chat_request =
  r_query :: string
  r_top_k :: "int option"

text \<open>
  \<^verbatim>\<open>chat\<close>: an empty query is refused before the stream is opened.
\<close>

definition chat :: "world \<Rightarrow> chat_request \<Rightarrow> py_exc + event list \<times> nat" where
  "chat w request =
     (let query = strip (r_query request)
      in if query = [] then Inl (HTTPException 400 ''Query empty'')
         else Inr (event_generator w query (r_top_k request)))"

text \<open>Counting the events of one kind.\<close>

definition is_token :: "event \<Rightarrow> bool" where
  "is_token ev = (case ev of Token _ \<Rightarrow> True | _ \<Rightarrow> False)"

definition is_error :: "event \<Rightarrow> bool" where
  "is_error ev = (case ev of Error _ \<Rightarrow> True | _ \<Rightarrow> False)"

definition is_done :: "event \<Rightarrow> bool" where
  "is_done ev = (case ev of Done \<Rightarrow> True | _ \<Rightarrow> False)"

text \<open>The text fragments of a response stream: the contents the loop forwards.\<close>

definition fragments :: "gen_chunk list \<Rightarrow> string list" where
  "fragments chunks =
     concat (map (\<lambda>chunk. case chunk of Some content # _ \<Rightarrow> (if content \<noteq> [] then [content] else [])
                                      | _ \<Rightarrow> []) chunks)"

section \<open>Invariants used in the proofs\<close>







definition intro_short :: "string list" where
  "intro_short = [''# Intro'', ''short line'']"



text \<open>
  A small chunk store for concrete runs: two loadable chunk files, one that does not
  parse and one that is not a chunk file; a provider of three-dimensional vectors that
  fails on its second call; the identity as a stand-in for the digest.
\<close>

definition demo_env :: builder_env where
  "demo_env = \<lparr> embed_content = (\<lambda>n text. if n = 1 then None else Some [1, 2, 3]),
                 md5_hexdigest = (\<lambda>bytes. bytes),
                 now_isoformat = (\<lambda>n. ''2024-01-01T00:00:00'') \<rparr>"

definition demo_fs :: builder_fs where
  "demo_fs = \<lparr> input_dir = Some
       [\<lparr> fname = ''b.json'', raw = ''B'', loaded = Json (JObj [(''text'', JStr ''beta'')]) \<rparr>,
        \<lparr> fname = ''a.json'', raw = ''A'', loaded = BadJson \<rparr>,
        \<lparr> fname = ''notes.txt'', raw = ''N'', loaded = BadJson \<rparr>,
        \<lparr> fname = ''c.json'', raw = ''C'', loaded = Json (JObj [(''url'', JStr ''u'')]) \<rparr>],
     faiss_file = None, meta_file = None, index_info_file = None \<rparr>"

definition demo_index :: faiss_index where
  "demo_index = \<lparr> dim = 3, rows = [[1, 2, 3], [0, 0, 0]] \<rparr>"

definition demo_metas :: "meta list" where
  "demo_metas =
     [\<lparr> m_url = JStr [], m_title = JStr [], m_position = JNum 0, m_checksum = JStr [],
        m_filename = ''b.json'', m_indexed_at = ''2024-01-01T00:00:00'' \<rparr>,
      \<lparr> m_url = JStr ''u'', m_title = JStr [], m_position = JNum 0, m_checksum = JStr [],
        m_filename = ''c.json'', m_indexed_at = ''2024-01-01T00:00:00'' \<rparr>]"

definition demo_built :: builder_fs where
  "demo_built = demo_fs\<lparr> faiss_file := Some demo_index, meta_file := Some demo_metas,
     index_info_file := Some (Json (JObj
       [(''content_hash'', JStr ''ABC''), (''num_chunks'', JNum 2),
        (''indexed_at'', JStr ''2024-01-01T00:00:00''),
        (''model'', JStr ''text-embedding-004'')])) \<rparr>"

text \<open>
  A provider of two-dimensional vectors that answers sixteen calls and fails from the
  seventeenth on, over a chunk store of seventeen loadable chunk files.
\<close>

definition flaky_env :: builder_env where
  "flaky_env = \<lparr> embed_content = (\<lambda>n text. if n < 16 then Some [1, 1] else None),
                  md5_hexdigest = (\<lambda>bytes. bytes),
                  now_isoformat = (\<lambda>n. ''2024-01-01T00:00:00'') \<rparr>"


text \<open>
  A world for concrete runs of the service: both files exist and load, the metadata
  holds one record, the search returns that record and one sentinel, and the generation
  provider yields five chunks, two of them with text, before it raises.
  \<^verbatim>\<open>str(e)\<close> of an \<^verbatim>\<open>HTTPException\<close> is taken as the status code, a colon and
  the detail.
\<close>

definition demo_world :: world where
  "demo_world = \<lparr>
     w_parent_dir = ''/srv'',
     w_faiss_exists = True,
     w_meta_exists = True,
     w_read_index = None,
     w_load_metas = Inr (JArr [JObj [(''text'', JStr ''alpha''), (''title'', JStr ''A'')]]),
     w_embed_query = (\<lambda>query. Inr [1, 2, 3]),
     w_search = (\<lambda>v k. Inr [(1, 0), (2, -1)]),
     w_str_http = (\<lambda>code detail. show_nat code @ '': '' @ detail),
     w_format = (\<lambda>v. case v of JStr s \<Rightarrow> s | _ \<Rightarrow> []),
     w_generate = (\<lambda>prompt.
        Inr ([[Some ''Hel''], [Some []], [], [Some ''lo''], [None]], Some (PyError ''reset''))) \<rparr>"

definition demo_request :: chat_request where
  "demo_request = \<lparr> r_query = '' hello '', r_top_k = Some 5 \<rparr>"

definition demo_sources :: "source list" where
  "demo_sources = [\<lparr> s_title = JStr ''A'', s_url = JStr [], s_snippet = ''alpha...'',
                      s_distance = 1, s_position = JNum 0 \<rparr>]"

text \<open>The same world with a search that finds nothing but sentinels.\<close>

definition no_match_world :: world where
  "no_match_world = demo_world\<lparr> w_search := (\<lambda>v k. Inr [(1, -1), (2, -1)]) \<rparr>"

text \<open>The same world without the index file, and with a search that raises.\<close>

definition no_index_world :: world where
  "no_index_world = demo_world\<lparr> w_faiss_exists := False \<rparr>"

definition broken_search_world :: world where
  "broken_search_world = demo_world\<lparr> w_search := (\<lambda>v k. Inl (PyError ''boom'')) \<rparr>"

section \<open>Properties of the chunker\<close>

















text \<open>
  C4, as stated: a trailing buffer below \<^const>\<open>MIN_TOKENS\<close> that would be the only
  chunk of its document is still emitted. With one token per character, the two lines
  of \<^const>\<open>intro_short\<close> make one buffer of 18 tokens, and no chunk comes out.
\<close>

theorem only_chunk_dropped:
  "char_tokens (strip (join_nl intro_short)) < MIN_TOKENS \<and>
   chunk_heading_recursive char_tokens intro_short \<noteq> [strip (join_nl intro_short)] \<and>
   chunk_heading_recursive char_tokens intro_short = []"
  by code_simp

lemma loop_single_buffer:
  "\<forall>l\<in>set ls. \<not> is_heading l \<Longrightarrow>
   \<forall>k. 0 < k \<and> k \<le> length ls \<longrightarrow> tok (join_nl (cur @ take k ls)) \<le> MAX_TOKENS \<Longrightarrow>
   chunk_loop tok (cs, cur) ls = (cs, cur @ ls)"
proof (induction ls arbitrary: cur)
  case Nil
  then show ?case by simp
next
  case (Cons l ls)
  from Cons.prems(2) [rule_format, of 1] have 1: "tok (join_nl (cur @ [l])) \<le> MAX_TOKENS"
    by simp
  from Cons.prems(1) have nh: "\<not> is_heading l" by simp
  have step: "chunk_step tok (cs, cur) l = (cs, cur @ [l])"
    using 1 nh by (simp add: chunk_step_def)
  have "\<forall>k. 0 < k \<and> k \<le> length ls \<longrightarrow> tok (join_nl ((cur @ [l]) @ take k ls)) \<le> MAX_TOKENS"
  proof (intro allI impI)
    fix k assume "0 < k \<and> k \<le> length ls"
    then show "tok (join_nl ((cur @ [l]) @ take k ls)) \<le> MAX_TOKENS"
      using Cons.prems(2) [rule_format, of "Suc k"] by simp
  qed
  with Cons.IH [of "cur @ [l]"] Cons.prems(1) show ?case by (simp add: step)
qed

text \<open>
  C4, amended: when the lines of a document accumulate into a single trailing buffer
  (no line after the first is a heading, and the buffer stays within the cap after every
  append), the chunker emits that buffer, stripped, as the only chunk if and only if it
  has more than \<^const>\<open>MIN_TOKENS\<close> tokens, and emits no chunk at all otherwise.
\<close>

theorem single_buffer_min_rule:
  assumes "lines \<noteq> []"
    and "\<forall>l\<in>set (tl lines). \<not> is_heading l"
    and "\<forall>k\<in>{1..length lines}. tok (join_nl (take k lines)) \<le> MAX_TOKENS"
  shows "chunk_heading_recursive tok lines =
    (if MIN_TOKENS < tok (strip (join_nl lines)) then [strip (join_nl lines)] else [])"
proof -
  from assms(1) obtain l ls where L: "lines = l # ls" by (cases lines) auto
  from assms(3) L have 1: "tok (join_nl [l]) \<le> MAX_TOKENS" by force
  have step: "chunk_step tok ([], []) l = ([], [l])" using 1 by (simp add: chunk_step_def)
  have "\<forall>k. 0 < k \<and> k \<le> length ls \<longrightarrow> tok (join_nl ([l] @ take k ls)) \<le> MAX_TOKENS"
  proof (intro allI impI)
    fix k assume "0 < k \<and> k \<le> length ls"
    then have "Suc k \<in> {1..length lines}" by (simp add: L)
    with assms(3) have "tok (join_nl (take (Suc k) lines)) \<le> MAX_TOKENS" by blast
    then show "tok (join_nl ([l] @ take k ls)) \<le> MAX_TOKENS" by (simp add: L)
  qed
  with assms(2) L have "chunk_loop tok ([], [l]) ls = ([], [l] @ ls)"
    by (intro loop_single_buffer) simp_all
  then show ?thesis
    by (simp add: chunk_heading_recursive_def L step close_min_def)
qed

theorem single_buffer_min_rule_witness:
  "intro_short \<noteq> [] \<and>
   tl intro_short = [''short line''] \<and> \<not> is_heading ''short line'' \<and>
   length intro_short = 2 \<and>
   char_tokens (join_nl (take 1 intro_short)) \<le> MAX_TOKENS \<and>
   char_tokens (join_nl (take 2 intro_short)) \<le> MAX_TOKENS \<and>
   \<not> MIN_TOKENS < char_tokens (strip (join_nl intro_short)) \<and>
   chunk_heading_recursive char_tokens intro_short = []"
proof -
  have 1: "intro_short \<noteq> []"
    by code_simp
  have t: "tl intro_short = [''short line'']"
    by code_simp
  have h: "\<not> is_heading ''short line''"
    by code_simp
  from t h have 2: "\<forall>l\<in>set (tl intro_short). \<not> is_heading l"
    by simp
  have len: "length intro_short = 2"
    by code_simp
  have k1: "char_tokens (join_nl (take 1 intro_short)) \<le> MAX_TOKENS"
    by code_simp
  have k2: "char_tokens (join_nl (take 2 intro_short)) \<le> MAX_TOKENS"
    by code_simp
  have 3: "\<forall>k\<in>{1..length intro_short}. char_tokens (join_nl (take k intro_short)) \<le> MAX_TOKENS"
  proof
    fix k assume "k \<in> {1..length intro_short}"
    then have "k = 1 \<or> k = 2" unfolding len by auto
    then show "char_tokens (join_nl (take k intro_short)) \<le> MAX_TOKENS"
      by (elim disjE) (simp_all only: k1 k2)
  qed
  have 4: "\<not> MIN_TOKENS < char_tokens (strip (join_nl intro_short))"
    by code_simp
  from single_buffer_min_rule [OF 1 2 3] 4
  have 5: "chunk_heading_recursive char_tokens intro_short = []"
    by (simp only: if_False)
  show ?thesis
    by (rule conjI [OF 1 conjI [OF t conjI [OF h conjI [OF len
          conjI [OF k1 conjI [OF k2 conjI [OF 4 5]]]]]]])
qed

section \<open>Properties of the index builder\<close>

lemma load_loop_lengths:
  "length t = length m \<Longrightarrow>
   length (fst (load_loop env (t, m) fs)) = length (snd (load_loop env (t, m) fs))"
proof (induction fs arbitrary: t m)
  case Nil
  then show ?case by simp
next
  case (Cons f fs)
  show ?case
  proof (cases "loaded f")
    case BadJson
    with Cons show ?thesis by simp
  next
    case (Json v)
    with Cons show ?thesis by (cases v) simp_all
  qed
qed

lemma load_chunks_lengths:
  "load_chunks env d = (texts, metas) \<Longrightarrow> length texts = length metas"
proof (cases d)
  case None
  assume "load_chunks env d = (texts, metas)"
  with None show ?thesis by (simp add: load_chunks_def)
next
  case (Some entries)
  assume a: "load_chunks env d = (texts, metas)"
  have "length (fst (load_chunks env d)) = length (snd (load_chunks env d))"
    unfolding load_chunks_def Some option.case
    by (rule load_loop_lengths) simp
  with a show ?thesis by simp
qed

lemma gemini_loop_lengths:
  "gemini_loop env (e, n) ts = (e', n') \<Longrightarrow> length e' = length e + length ts \<and> n' = n + length ts"
proof (induction ts arbitrary: e n)
  case Nil
  then show ?case by simp
next
  case (Cons t ts)
  show ?case
  proof (cases "embed_content env n t")
    case None
    with Cons.prems Cons.IH [of "e @ [np_zeros_like (hd e)]" "Suc n"]
      Cons.IH [of "e @ [np_zeros 768]" "Suc n"]
    show ?thesis by (cases "e = []") simp_all
  next
    case (Some v)
    with Cons.prems Cons.IH [of "e @ [v]" "Suc n"] show ?thesis by simp
  qed
qed

lemma get_gemini_embeddings_lengths:
  "get_gemini_embeddings env n ts = (e', n') \<Longrightarrow> length e' = length ts \<and> n' = n + length ts"
  unfolding get_gemini_embeddings_def by (drule gemini_loop_lengths) simp

lemma embed_batches_lengths:
  "embed_batches env texts i (a, n) = (a', n') \<Longrightarrow>
   length a' = length a + (length texts - i) \<and> n' = n + (length texts - i)"
proof (induction env texts i "(a, n)" arbitrary: a n rule: embed_batches.induct)
  case (1 env texts i a n)
  show ?case
  proof (cases "i < length texts")
    case False
    with "1.prems" show ?thesis by simp
  next
    case True
    obtain be bn where g: "get_gemini_embeddings env n (take BATCH_SIZE (drop i texts)) = (be, bn)"
      by (cases "get_gemini_embeddings env n (take BATCH_SIZE (drop i texts))")
    from get_gemini_embeddings_lengths [OF g]
    have l: "length be = min BATCH_SIZE (length texts - i)" "bn = n + min BATCH_SIZE (length texts - i)"
      by (simp_all add: min.commute)
    from "1.prems" True g
    have r: "embed_batches env texts (i + BATCH_SIZE) (a @ be, bn) = (a', n')"
      by simp
    from "1.hyps" [OF True refl g [symmetric] refl r]
    have "length a' = length (a @ be) + (length texts - (i + BATCH_SIZE))"
      and "n' = bn + (length texts - (i + BATCH_SIZE))" by simp_all
    with l True show ?thesis by (auto simp: min_def)
  qed
qed

lemma np_stack_Inr: "np_stack vs = Inr a \<Longrightarrow> a = vs"
  by (cases vs) (auto simp: np_stack_def split: if_splits)


lemma rebuild_result:
  assumes "build_faiss_index env fs force_reindex = (fs', n, Inr (Some index, metas))"
    and "force_reindex \<or> should_reindex env fs"
  shows "ntotal index = length metas \<and> n = length metas \<and>
         faiss_file fs' = Some index \<and> meta_file fs' = Some metas"
proof -
  obtain texts ms where lc: "load_chunks env (input_dir fs) = (texts, ms)"
    by (cases "load_chunks env (input_dir fs)")
  then have len: "length texts = length ms" by (rule load_chunks_lengths)
  obtain a k where eb: "embed_batches env texts 0 ([], 0) = (a, k)"
    by (cases "embed_batches env texts 0 ([], 0)")
  from embed_batches_lengths [OF eb] have al: "length a = length texts" "k = length texts"
    by simp_all
  from assms lc eb have ne: "texts \<noteq> []"
    by (auto simp: build_faiss_index_def)
  from assms lc eb ne obtain arr where st: "np_stack a = Inr arr"
    by (cases "np_stack a") (auto simp: build_faiss_index_def)
  then have arr: "arr = a" by (rule np_stack_Inr)
  from assms lc eb ne st
  have "index = \<lparr> dim = length (hd arr), rows = arr \<rparr>" "metas = ms" "n = k"
    "faiss_file fs' = Some index" "meta_file fs' = Some metas"
    by (auto simp: build_faiss_index_def save_index_info_def Let_def)
  with arr al len show ?thesis by (simp add: ntotal_def)
qed

text \<open>
  C10: after a build that constructs a new index and succeeds, the index holds as many
  vectors as there are metadata records, whatever chunk files failed to load and
  whatever embedding calls failed; that many provider calls were issued, and the two
  files hold what is returned.
\<close>

theorem index_matches_metadata:
  assumes "build_faiss_index env fs force_reindex = (fs', n, Inr (Some index, metas))"
    and "force_reindex \<or> should_reindex env fs"
  shows "ntotal index = length metas \<and> n = length metas \<and>
         faiss_file fs' = Some index \<and> meta_file fs' = Some metas"
  using assms by (rule rebuild_result)

theorem index_matches_metadata_witness:
  "build_faiss_index demo_env demo_fs False = (demo_built, 2, Inr (Some demo_index, demo_metas)) \<and>
   (False \<or> should_reindex demo_env demo_fs) \<and>
   ntotal demo_index = length demo_metas \<and> (2::nat) = length demo_metas \<and>
   faiss_file demo_built = Some demo_index \<and> meta_file demo_built = Some demo_metas"
proof -
  have b: "build_faiss_index demo_env demo_fs False =
      (demo_built, 2, Inr (Some demo_index, demo_metas))"
    by code_simp
  have s: "False \<or> should_reindex demo_env demo_fs"
    by code_simp
  note c = index_matches_metadata [OF b s]
  show ?thesis
    by (rule conjI [OF b conjI [OF s c]])
qed

lemma load_path:
  assumes "\<not> force_reindex" and "\<not> should_reindex env fs"
  shows "\<exists>index metas. faiss_file fs = Some index \<and> meta_file fs = Some metas \<and>
           build_faiss_index env fs force_reindex = (fs, 0, Inr (Some index, metas))"
proof -
  from assms(2) obtain index metas where "faiss_file fs = Some index" "meta_file fs = Some metas"
    by (auto simp: should_reindex_def split: if_splits)
  with assms show ?thesis by (simp add: build_faiss_index_def)
qed

lemma should_reindex_md5:
  "md5_hexdigest env' = md5_hexdigest env \<Longrightarrow> should_reindex env' fs = should_reindex env fs"
  by (simp add: should_reindex_def calculate_directory_hash_def Let_def
      split: option.splits json_file.splits json.splits)

lemma load_chunks_None: "load_chunks env None = ([], [])"
  by (simp add: load_chunks_def)

lemma fresh_after_rebuild:
  assumes "build_faiss_index env fs force_reindex = (fs', n, Inr (Some index, metas))"
    and "force_reindex \<or> should_reindex env fs"
  shows "\<not> should_reindex env fs'"
proof -
  obtain texts ms where lc: "load_chunks env (input_dir fs) = (texts, ms)"
    by (cases "load_chunks env (input_dir fs)")
  obtain a k where eb: "embed_batches env texts 0 ([], 0) = (a, k)"
    by (cases "embed_batches env texts 0 ([], 0)")
  from assms lc eb have ne: "texts \<noteq> []"
    by (auto simp: build_faiss_index_def)
  with lc obtain entries where d: "input_dir fs = Some entries"
    by (cases "input_dir fs") (auto simp: load_chunks_None)
  from assms lc eb ne obtain arr where st: "np_stack a = Inr arr"
    by (cases "np_stack a") (auto simp: build_faiss_index_def)
  from assms lc eb ne st
  have fs': "fs' = save_index_info env (length ms)
      (calculate_directory_hash env (input_dir fs)) (length texts)
      (fs\<lparr> faiss_file := Some \<lparr> dim = length (hd arr), rows = arr \<rparr>, meta_file := Some ms \<rparr>)"
    by (auto simp: build_faiss_index_def Let_def)
  show ?thesis
    by (simp add: fs' should_reindex_def save_index_info_def d calculate_directory_hash_def
        dict_get_def hash_differs_def)
qed

lemma build_loads:
  assumes "\<not> should_reindex env fs" "faiss_file fs = Some index" "meta_file fs = Some metas"
  shows "build_faiss_index env fs False = (fs, 0, Inr (Some index, metas))"
  using assms by (simp add: build_faiss_index_def)

lemma second_build:
  assumes b: "build_faiss_index env fs force_reindex = (fs', n, Inr (Some index', metas'))"
    and m: "md5_hexdigest env' = md5_hexdigest env"
  shows "build_faiss_index env' fs' False = (fs', 0, Inr (Some index', metas'))"
proof (cases "force_reindex \<or> should_reindex env fs")
  case True
  have fresh: "\<not> should_reindex env' fs'"
    unfolding should_reindex_md5 [OF m] by (rule fresh_after_rebuild [OF b True])
  from rebuild_result [OF b True]
  have f: "faiss_file fs' = Some index'" and g: "meta_file fs' = Some metas'"
    by blast+
  show ?thesis
    by (rule build_loads [OF fresh f g])
next
  case False
  then have nf: "\<not> force_reindex" and ns: "\<not> should_reindex env fs" by blast+
  from load_path [OF nf ns] obtain i0 m0 where
    f: "faiss_file fs = Some i0" and g: "meta_file fs = Some m0"
    and r: "build_faiss_index env fs force_reindex = (fs, 0, Inr (Some i0, m0))" by blast
  from r have "(fs', n, Inr (Some index', metas')) = (fs, 0, Inr (Some i0, m0) :: py_exc + faiss_index option \<times> meta list)"
    by (simp only: b)
  then have e: "fs' = fs" "i0 = index'" "m0 = metas'"
    by (simp_all only: prod.inject sum.inject option.inject)
  have fresh: "\<not> should_reindex env' fs"
    unfolding should_reindex_md5 [OF m] by (rule ns)
  show ?thesis
    unfolding e(1) using build_loads [OF fresh f g] by (simp only: e)
qed

text \<open>
  C7: when \<^verbatim>\<open>force_reindex\<close> is false and \<^const>\<open>should_reindex\<close> is false, the
  build issues no provider call, leaves the files as they are and returns the persisted
  index and metadata. In particular, after a build that returned an index, a second
  build on the files it left, with the same digest function and any provider, issues no
  provider call and returns the same index and metadata.
\<close>

theorem rebuild_avoided:
  "(\<not> force_reindex \<and> \<not> should_reindex env fs \<longrightarrow>
      (\<exists>index metas. faiss_file fs = Some index \<and> meta_file fs = Some metas \<and>
         build_faiss_index env fs force_reindex = (fs, 0, Inr (Some index, metas)))) \<and>
   (build_faiss_index env fs force_reindex = (fs', n, Inr (Some index', metas')) \<and>
    md5_hexdigest env' = md5_hexdigest env \<longrightarrow>
      build_faiss_index env' fs' False = (fs', 0, Inr (Some index', metas')))"
proof (intro conjI impI)
  assume "\<not> force_reindex \<and> \<not> should_reindex env fs"
  then have "\<not> force_reindex" and "\<not> should_reindex env fs" by blast+
  then show "\<exists>index metas. faiss_file fs = Some index \<and> meta_file fs = Some metas \<and>
         build_faiss_index env fs force_reindex = (fs, 0, Inr (Some index, metas))"
    by (rule load_path)
next
  assume "build_faiss_index env fs force_reindex = (fs', n, Inr (Some index', metas')) \<and>
    md5_hexdigest env' = md5_hexdigest env"
  then have "build_faiss_index env fs force_reindex = (fs', n, Inr (Some index', metas'))"
    and "md5_hexdigest env' = md5_hexdigest env" by blast+
  then show "build_faiss_index env' fs' False = (fs', 0, Inr (Some index', metas'))"
    by (rule second_build)
qed

theorem rebuild_avoided_witness:
  "(\<not> False \<and> \<not> should_reindex demo_env demo_built) \<and>
   build_faiss_index demo_env demo_fs False = (demo_built, 2, Inr (Some demo_index, demo_metas)) \<and>
   md5_hexdigest flaky_env = md5_hexdigest demo_env \<and>
   build_faiss_index flaky_env demo_built False = (demo_built, 0, Inr (Some demo_index, demo_metas)) \<and>
   (\<exists>index metas. faiss_file demo_built = Some index \<and> meta_file demo_built = Some metas \<and>
      build_faiss_index demo_env demo_built False = (demo_built, 0, Inr (Some index, metas)))"
proof -
  have h: "\<not> False \<and> \<not> should_reindex demo_env demo_built"
    by code_simp
  have b: "build_faiss_index demo_env demo_fs False =
      (demo_built, 2, Inr (Some demo_index, demo_metas))"
    by code_simp
  have m: "md5_hexdigest flaky_env = md5_hexdigest demo_env"
    by (simp add: flaky_env_def demo_env_def)
  note first = rebuild_avoided [where force_reindex = False and env = demo_env
      and fs = demo_built, THEN conjunct1, rule_format, OF h]
  note second = rebuild_avoided [where env = demo_env and fs = demo_fs
      and force_reindex = False and fs' = demo_built and n = 2 and index' = demo_index
      and metas' = demo_metas and env' = flaky_env, THEN conjunct2, rule_format, OF conjI, OF b m]
  show ?thesis
    by (rule conjI [OF h conjI [OF b conjI [OF m conjI [OF second first]]]])
qed




section \<open>Properties of the query service\<close>

lemma suffix_shift:
  assumes "x @ ''aiss_index.index'' = y @ ''faiss_index.index''"
  shows "x = y @ ''f''"
proof -
  have s: "y @ ''faiss_index.index'' = (y @ ''f'') @ ''aiss_index.index''" by simp
  from assms have "x @ ''aiss_index.index'' = (y @ ''f'') @ ''aiss_index.index''"
    unfolding s .
  then show ?thesis by (simp only: append_same_eq)
qed

lemma builder_path_form:
  "\<exists>x. os_path_join cwd builder_FAISS_FILE = x @ ''aiss_index.index'' \<and>
       (x = [] \<or> last x = CHR ''/'')"
proof (cases "cwd = [] \<or> last cwd = CHR ''/''")
  case True
  then have "os_path_join cwd builder_FAISS_FILE = cwd @ ''aiss_index.index''"
    by (auto simp: os_path_join_def builder_FAISS_FILE_def)
  with True show ?thesis by blast
next
  case False
  then have "os_path_join cwd builder_FAISS_FILE = (cwd @ ''/'') @ ''aiss_index.index''"
    by (auto simp: os_path_join_def builder_FAISS_FILE_def)
  moreover have "last (cwd @ ''/'') = CHR ''/''" by simp
  ultimately show ?thesis by blast
qed

lemma service_path_form:
  "\<exists>y. service_FAISS_FILE parent = y @ ''faiss_index.index''"
proof (cases "parent = [] \<or> last parent = CHR ''/''")
  case True
  then have "service_FAISS_FILE parent = parent @ ''faiss_index.index''"
    by (auto simp: os_path_join_def service_FAISS_FILE_def)
  then show ?thesis by blast
next
  case False
  then have "service_FAISS_FILE parent = (parent @ ''/'') @ ''faiss_index.index''"
    by (auto simp: os_path_join_def service_FAISS_FILE_def)
  then show ?thesis by blast
qed

lemma paths_differ: "os_path_join cwd builder_FAISS_FILE \<noteq> service_FAISS_FILE parent"
proof
  assume eq: "os_path_join cwd builder_FAISS_FILE = service_FAISS_FILE parent"
  from builder_path_form [of cwd] obtain x where
    x: "os_path_join cwd builder_FAISS_FILE = x @ ''aiss_index.index''"
    and xs: "x = [] \<or> last x = CHR ''/''" by blast
  from service_path_form [of parent] obtain y where
    y: "service_FAISS_FILE parent = y @ ''faiss_index.index''" by blast
  have "x @ ''aiss_index.index'' = y @ ''faiss_index.index''"
    unfolding x [symmetric] y [symmetric] by (rule eq)
  then have "x = y @ ''f''" by (rule suffix_shift)
  then have "x \<noteq> []" "last x = CHR ''f''" by simp_all
  with xs show False by simp
qed

lemma relative_differs: "builder_FAISS_FILE \<noteq> service_FAISS_FILE parent"
proof
  assume eq: "builder_FAISS_FILE = service_FAISS_FILE parent"
  from service_path_form [of parent] obtain y where
    y: "service_FAISS_FILE parent = y @ ''faiss_index.index''" by blast
  have "[] @ builder_FAISS_FILE = y @ ''faiss_index.index''"
    unfolding y [symmetric] append_Nil by (rule eq)
  then have "[] @ ''aiss_index.index'' = y @ ''faiss_index.index''"
    unfolding builder_FAISS_FILE_def .
  then have "[] = y @ ''f''" by (rule suffix_shift)
  then show False by simp
qed

text \<open>
  C2: the path the builder writes its index to (\<^verbatim>\<open>aiss_index.index\<close>, as written
  or resolved against any working directory) is never the path the service reads its
  index from (\<^verbatim>\<open>faiss_index.index\<close> under any parent directory); so writing the
  builder's file leaves what the service reads as it was.
\<close>

theorem builder_index_is_not_service_index:
  "builder_FAISS_FILE \<noteq> service_FAISS_FILE parent \<and>
   os_path_join cwd builder_FAISS_FILE \<noteq> service_FAISS_FILE parent \<and>
   read_index (service_FAISS_FILE parent)
       (write_index index (os_path_join cwd builder_FAISS_FILE) store) =
     read_index (service_FAISS_FILE parent) store"
proof -
  have "service_FAISS_FILE parent \<noteq> os_path_join cwd builder_FAISS_FILE"
    using paths_differ [of cwd parent] by (rule not_sym)
  then have "read_index (service_FAISS_FILE parent)
       (write_index index (os_path_join cwd builder_FAISS_FILE) store) =
     read_index (service_FAISS_FILE parent) store"
    by (simp add: read_index_def write_index_def)
  with relative_differs paths_differ show ?thesis by blast
qed

lemma token_events_fragments: "token_events chunks = map Token (fragments chunks)"
proof (induction chunks)
  case Nil
  show ?case by (simp add: fragments_def)
next
  case (Cons chunk chunks)
  then have ih: "token_events chunks = map Token (fragments chunks)" .
  have fr: "fragments (chunk # chunks) =
      (case chunk of Some content # _ \<Rightarrow> (if content \<noteq> [] then [content] else []) | _ \<Rightarrow> [])
      @ fragments chunks"
    by (simp add: fragments_def)
  show ?case
    by (simp add: fr ih split: list.splits option.splits)
qed

lemma filter_tokens: "filter is_token (map Token xs) = map Token xs"
  by (induction xs) (simp_all add: is_token_def)

lemma no_error_in_tokens: "filter is_error (map Token xs) = []"
  by (induction xs) (simp_all add: is_error_def)

lemma no_done_in_tokens: "filter is_done (map Token xs) = []"
  by (induction xs) (simp_all add: is_done_def)

lemma error_event_kind:
  "is_error (error_event w e) \<and> \<not> is_token (error_event w e) \<and> \<not> is_done (error_event w e)"
  by (cases e) (simp_all add: error_event_def is_error_def is_token_def is_done_def)

lemma failing_stream:
  assumes "retrieve_top_k w query top_k = Inr docs" and "docs \<noteq> []"
    and "sources_of docs = Inr sources"
    and "w_generate w (build_prompt w query docs) = Inr (chunks, Some e)"
  shows "event_generator w query top_k =
           (Sources sources # map Token (fragments chunks) @ [error_event w e], 1)"
  using assms by (simp add: event_generator_def token_events_fragments)

text \<open>
  C9: when retrieval gives documents, the sources are sent, and the response stream of
  the generation provider raises after its chunks, the stream is the sources event, one
  token event for each text fragment of the chunks, in order, and then one error event,
  the last event: as many token events as fragments, exactly one error event, no done
  event.
\<close>

theorem midstream_failure:
  assumes "strip (r_query request) \<noteq> []"
    and "retrieve_top_k w (strip (r_query request)) (r_top_k request) = Inr docs"
    and "docs \<noteq> []"
    and "sources_of docs = Inr sources"
    and "w_generate w (build_prompt w (strip (r_query request)) docs) = Inr (chunks, Some e)"
  shows "\<exists>events. chat w request = Inr (events, 1) \<and>
           events = Sources sources # map Token (fragments chunks) @ [error_event w e] \<and>
           is_error (last events) \<and>
           length (filter is_token events) = length (fragments chunks) \<and>
           length (filter is_error events) = 1 \<and>
           filter is_done events = []"
proof -
  let ?events = "Sources sources # map Token (fragments chunks) @ [error_event w e]"
  from failing_stream [OF assms(2-5)] assms(1)
  have c: "chat w request = Inr (?events, 1)"
    by (simp add: chat_def)
  have k: "is_error (error_event w e)" "\<not> is_token (error_event w e)"
    "\<not> is_done (error_event w e)"
    using error_event_kind [of w e] by blast+
  have l: "is_error (last ?events)" using k(1) by simp
  have t: "length (filter is_token ?events) = length (fragments chunks)"
    using k(2) by (simp add: filter_tokens is_token_def)
  have r: "length (filter is_error ?events) = 1"
    using k(1) by (simp add: no_error_in_tokens is_error_def)
  have d: "filter is_done ?events = []"
    using k(3) by (simp add: no_done_in_tokens is_done_def)
  from c l t r d show ?thesis by blast
qed

theorem midstream_failure_witness:
  "strip (r_query demo_request) \<noteq> [] \<and>
   retrieve_top_k demo_world (strip (r_query demo_request)) (r_top_k demo_request) =
     Inr [\<lparr> d_distance = 1, d_text = JStr ''alpha'', d_url = JStr [], d_title = JStr ''A'',
            d_position = JNum 0 \<rparr>] \<and>
   fragments [[Some ''Hel''], [Some []], [], [Some ''lo''], [None]] = [''Hel'', ''lo''] \<and>
   (\<exists>events. chat demo_world demo_request = Inr (events, 1) \<and>
      events = Sources demo_sources #
        map Token (fragments [[Some ''Hel''], [Some []], [], [Some ''lo''], [None]]) @
        [error_event demo_world (PyError ''reset'')] \<and>
      is_error (last events) \<and>
      length (filter is_token events) =
        length (fragments [[Some ''Hel''], [Some []], [], [Some ''lo''], [None]]) \<and>
      length (filter is_error events) = 1 \<and>
      filter is_done events = [])"
proof -
  let ?docs = "[\<lparr> d_distance = 1, d_text = JStr ''alpha'', d_url = JStr [],
                   d_title = JStr ''A'', d_position = JNum 0 \<rparr>]"
  let ?chunks = "[[Some ''Hel''], [Some []], [], [Some ''lo''], [None]]"
  have 1: "strip (r_query demo_request) \<noteq> []"
    by code_simp
  have 2: "retrieve_top_k demo_world (strip (r_query demo_request)) (r_top_k demo_request) =
      Inr ?docs"
    by code_simp
  have 3: "?docs \<noteq> []"
    by simp
  have 4: "sources_of ?docs = Inr demo_sources"
    by code_simp
  have 5: "w_generate demo_world (build_prompt demo_world (strip (r_query demo_request)) ?docs) =
      Inr (?chunks, Some (PyError ''reset''))"
    by (simp add: demo_world_def)
  have 6: "fragments ?chunks = [''Hel'', ''lo'']"
    by code_simp
  note g = midstream_failure [OF 1 2 3 4 5]
  show ?thesis
    by (rule conjI [OF 1 conjI [OF 2 conjI [OF 6 g]]])
qed

text \<open>
  C1, as stated: a query that retrieves nothing ends in a normal, non-error event and
  a transition to done. In a world whose search returns only sentinels the retrieval
  gives no documents, and the only event of the stream is an error event.
\<close>

theorem no_documents_event_is_error:
  "strip (r_query demo_request) \<noteq> [] \<and>
   retrieve_top_k no_match_world (strip (r_query demo_request)) (r_top_k demo_request) = Inr [] \<and>
   chat no_match_world demo_request = Inr ([Error ''No docs found''], 0) \<and>
   is_error (Error ''No docs found'') \<and>
   filter is_done [Error ''No docs found''] = []"
  by code_simp

text \<open>
  C1, amended: for every request whose non-empty query retrieves zero results, the
  stream is exactly one event, of type error with the message "No docs found"; the
  generation provider is not called and no done event is sent.
\<close>

theorem no_documents_stream:
  assumes "strip (r_query request) \<noteq> []"
    and "retrieve_top_k w (strip (r_query request)) (r_top_k request) = Inr []"
  shows "chat w request = Inr ([Error ''No docs found''], 0)"
  using assms by (simp add: chat_def event_generator_def)

theorem no_documents_stream_witness:
  "strip (r_query demo_request) \<noteq> [] \<and>
   retrieve_top_k no_match_world (strip (r_query demo_request)) (r_top_k demo_request) = Inr [] \<and>
   chat no_match_world demo_request = Inr ([Error ''No docs found''], 0)"
proof -
  have 1: "strip (r_query demo_request) \<noteq> []"
    by code_simp
  have 2: "retrieve_top_k no_match_world (strip (r_query demo_request)) (r_top_k demo_request) =
      Inr []"
    by code_simp
  note g = no_documents_stream [OF 1 2]
  show ?thesis
    by (rule conjI [OF 1 conjI [OF 2 g]])
qed

text \<open>
  C5, at a failing input. Without the index file the body of \<^verbatim>\<open>retrieve_top_k\<close>
  raises \<^verbatim>\<open>HTTPException(404)\<close>, but the \<^verbatim>\<open>except Exception\<close> clause of the same
  function catches it and raises \<^verbatim>\<open>HTTPException(500)\<close>: the caller gets the status
  it gets when the search itself breaks.
\<close>

theorem missing_index_reported_as_500:
  "retrieve_body no_index_world ''hello'' (Some 5) =
     Inl (HTTPException 404 ''Index not found at: /srv/faiss_index.index'') \<and>
   retrieve_top_k no_index_world ''hello'' (Some 5) =
     Inl (HTTPException 500 ''404: Index not found at: /srv/faiss_index.index'') \<and>
   retrieve_top_k broken_search_world ''hello'' (Some 5) = Inl (HTTPException 500 ''boom'')"
  by code_simp

end
